theory Spec2Isabelle
  imports Main "HOL-Library.Word"
begin

unbundle bit_operations_syntax

section \<open>The upscale client of \<^verbatim>\<open>src/main.py\<close>\<close>

text \<open>
  The program is one linear flow: check the configuration, parse two positional
  arguments, initialise the cloud client, read and base64-encode the source image, send
  one prediction request, decode the first prediction, write the result next to the
  source (or, failing that, into the working directory) and print four report lines.

  The embedding is shallow. Everything the script does beyond computing values is
  explicit: the file system, the two output streams and a log of the calls that leave
  the process are fields of a \<open>world\<close> record that every step takes and returns; what
  the process cannot decide for itself (whether the client initialises, what the remote
  model answers, which directories are writable, what the image decoder makes of the
  bytes) is read from an \<open>env\<close> record. Exceptions are values of a sum type, and
  \<^verbatim>\<open>sys.exit\<close> is a constructor of the result type, so that every early exit of the
  source is a branch of the model.
\<close>

subsection \<open>Bytes, exceptions, small helpers\<close>

type_synonym byte = "8 word"
type_synonym bytes = "byte list"
type_synonym path = string

text \<open>
  The exception classes that the script raises or tells apart. \<^verbatim>\<open>FileNotFoundError\<close>
  and \<^verbatim>\<open>PermissionError\<close> are subclasses of \<^verbatim>\<open>OSError\<close>; \<^verbatim>\<open>binascii.Error\<close> is a
  subclass of \<^verbatim>\<open>ValueError\<close>; all of them are subclasses of \<^verbatim>\<open>Exception\<close>
  (\<^verbatim>\<open>SystemExit\<close> is not, and is modelled apart). An exception carries the text that
  \<^verbatim>\<open>str(e)\<close> gives.
\<close>

datatype exn_class =
    FileNotFoundError | PermissionError | OSError
  | IndexError | KeyError | TypeError | ValueError | BinasciiError
  | OtherException

datatype exn = Exn exn_class string

fun exn_cls :: "exn \<Rightarrow> exn_class" where
  "exn_cls (Exn c m) = c"

fun str_exn :: "exn \<Rightarrow> string" where
  "str_exn (Exn c m) = m"

fun is_OSError :: "exn_class \<Rightarrow> bool" where
  "is_OSError FileNotFoundError = True"
| "is_OSError PermissionError = True"
| "is_OSError OSError = True"
| "is_OSError _ = False"

text \<open>\<^verbatim>\<open>str(n)\<close> for a non-negative integer: its decimal digits.\<close>

definition digit_char :: "nat \<Rightarrow> char" where
  "digit_char d = ''0123456789'' ! d"

function str_nat :: "nat \<Rightarrow> string" where
  "str_nat n = (if n < 10 then [digit_char n] else str_nat (n div 10) @ [digit_char (n mod 10)])"
  by pat_completeness auto
termination
  by (relation "measure id") auto

declare str_nat.simps [simp del]

text \<open>Position of the first occurrence of an element, as \<^verbatim>\<open>list.index\<close> without the raise.\<close>

fun index_of :: "'a list \<Rightarrow> 'a \<Rightarrow> nat option" where
  "index_of [] c = None"
| "index_of (x # xs) c = (if x = c then Some 0 else map_option Suc (index_of xs c))"

subsection \<open>The standard library's base64 pair\<close>

text \<open>
  \<^verbatim>\<open>base64.b64encode\<close> and \<^verbatim>\<open>base64.b64decode\<close> belong to the Python standard library,
  not to the repository. They are modelled as the library computes them: the encoder
  maps each group of three bytes to four characters of the standard alphabet and pads
  the last group with \<^verbatim>\<open>=\<close>; the decoder is the non-strict loop of
  \<^verbatim>\<open>binascii.a2b_base64\<close>, which skips characters outside the alphabet, stops at a
  complete pad sequence and raises \<^verbatim>\<open>binascii.Error\<close> when the data characters do not
  fill the last group.
\<close>

definition b64_alphabet :: string where
  "b64_alphabet = ''ABCDEFGHIJKLMNOPQRSTUVWXYZabcdefghijklmnopqrstuvwxyz0123456789+/''"

definition table_b2a :: "byte \<Rightarrow> char" where
  "table_b2a v = b64_alphabet ! unat v"

definition table_a2b :: "char \<Rightarrow> byte" where
  "table_a2b c = (case index_of b64_alphabet c of Some i \<Rightarrow> of_nat i | None \<Rightarrow> 255)"

fun b64encode :: "bytes \<Rightarrow> string" where
  "b64encode [] = []"
| "b64encode [a] =
     [table_b2a (drop_bit 2 a), table_b2a (push_bit 4 (a AND 3)), CHR ''='', CHR ''='']"
| "b64encode [a, b] =
     [table_b2a (drop_bit 2 a), table_b2a (push_bit 4 (a AND 3) OR drop_bit 4 b),
      table_b2a (push_bit 2 (b AND 15)), CHR ''='']"
| "b64encode (a # b # c # rest) =
     [table_b2a (drop_bit 2 a), table_b2a (push_bit 4 (a AND 3) OR drop_bit 4 b),
      table_b2a (push_bit 2 (b AND 15) OR drop_bit 6 c), table_b2a (c AND 63)]
     @ b64encode rest"

text \<open>
  The decoder's loop. \<open>quad_pos\<close> counts the data characters of the current group,
  \<open>leftchar\<close> holds the bits not yet written, \<open>pads\<close> counts the pad characters seen
  since the last data character (only from the third position of a group on).
\<close>

fun a2b_loop :: "string \<Rightarrow> nat \<Rightarrow> byte \<Rightarrow> nat \<Rightarrow> bytes \<Rightarrow> exn + bytes" where
  "a2b_loop [] quad_pos leftchar pads out =
     (if quad_pos = 0 then Inr out
      else if quad_pos = 1 then
        Inl (Exn BinasciiError
          (''Invalid base64-encoded string: number of data characters ('' @
           str_nat (length out div 3 * 4 + 1) @
           '') cannot be 1 more than a multiple of 4''))
      else Inl (Exn BinasciiError ''Incorrect padding''))"
| "a2b_loop (c # cs) quad_pos leftchar pads out =
     (if c = CHR ''='' then
        (if 2 \<le> quad_pos \<and> 4 \<le> quad_pos + (pads + 1) then Inr out
         else a2b_loop cs quad_pos leftchar (if 2 \<le> quad_pos then pads + 1 else pads) out)
      else
        let this_ch = table_a2b c in
        if 64 \<le> this_ch then a2b_loop cs quad_pos leftchar pads out
        else if quad_pos = 0 then a2b_loop cs 1 this_ch 0 out
        else if quad_pos = 1 then
          a2b_loop cs 2 (this_ch AND 15) 0 (out @ [push_bit 2 leftchar OR drop_bit 4 this_ch])
        else if quad_pos = 2 then
          a2b_loop cs 3 (this_ch AND 3) 0 (out @ [push_bit 4 leftchar OR drop_bit 2 this_ch])
        else
          a2b_loop cs 0 0 0 (out @ [push_bit 6 leftchar OR this_ch]))"

definition is_ascii :: "char \<Rightarrow> bool" where
  "is_ascii c = (of_char c < (128 :: nat))"

text \<open>
  \<^verbatim>\<open>b64decode\<close> of a \<^verbatim>\<open>str\<close>: the string is encoded as ASCII first, and a character
  outside ASCII is a \<^verbatim>\<open>ValueError\<close>.
\<close>

definition b64decode :: "string \<Rightarrow> exn + bytes" where
  "b64decode s =
     (if list_all is_ascii s then a2b_loop s 0 0 0 []
      else Inl (Exn ValueError ''string argument should contain only ASCII characters''))"

subsection \<open>The standard library's path functions (\<^verbatim>\<open>posixpath\<close>)\<close>

text \<open>
  \<^verbatim>\<open>os.path\<close> on a POSIX system, modelled as the library computes it. \<^verbatim>\<open>str.rfind\<close>
  gives the highest index of the character, or \<open>-1\<close>.
\<close>

definition sep :: char where
  "sep = CHR ''/''"

definition rfind :: "string \<Rightarrow> char \<Rightarrow> int" where
  "rfind p c = (case index_of (rev p) c of
                  None \<Rightarrow> -1
                | Some k \<Rightarrow> int (length p) - 1 - int k)"

definition rstrip :: "string \<Rightarrow> char \<Rightarrow> string" where
  "rstrip p c = rev (dropWhile (\<lambda>x. x = c) (rev p))"

definition split_path :: "path \<Rightarrow> path \<times> string" where
  "split_path p =
     (let i = nat (rfind p sep + 1);
          head = take i p;
          tail = drop i p
      in (if head \<noteq> [] \<and> head \<noteq> replicate (length head) sep then rstrip head sep else head,
          tail))"

definition basename :: "path \<Rightarrow> string" where
  "basename p = drop (nat (rfind p sep + 1)) p"

text \<open>
  \<^verbatim>\<open>splitext\<close>: the extension starts at the last dot of the last component, unless
  that component has only dots before it.
\<close>

definition splitext :: "path \<Rightarrow> string \<times> string" where
  "splitext p =
     (let sepIndex = rfind p sep;
          dotIndex = rfind p CHR ''.''
      in if dotIndex > sepIndex \<and>
            list_ex (\<lambda>ch. ch \<noteq> CHR ''.'') (drop (nat (sepIndex + 1)) (take (nat dotIndex) p))
         then (take (nat dotIndex) p, drop (nat dotIndex) p)
         else (p, []))"

definition startswith :: "string \<Rightarrow> string \<Rightarrow> bool" where
  "startswith s pre = (take (length pre) s = pre)"

definition endswith :: "string \<Rightarrow> string \<Rightarrow> bool" where
  "endswith s suf = (length suf \<le> length s \<and> drop (length s - length suf) s = suf)"

definition join_path :: "path \<Rightarrow> path \<Rightarrow> path" where
  "join_path a b =
     (if startswith b [sep] then b
      else if a = [] \<or> endswith a [sep] then a @ b
      else a @ [sep] @ b)"

definition isabs :: "path \<Rightarrow> bool" where
  "isabs p = startswith p [sep]"

text \<open>\<^verbatim>\<open>str.split(sep)\<close> and \<^verbatim>\<open>sep.join(comps)\<close>.\<close>

fun split_on :: "char \<Rightarrow> string \<Rightarrow> string list" where
  "split_on c [] = [[]]"
| "split_on c (x # xs) =
     (if x = c then [] # split_on c xs
      else (case split_on c xs of
              [] \<Rightarrow> [[x]]
            | h # t \<Rightarrow> (x # h) # t))"

fun join_on :: "char \<Rightarrow> string list \<Rightarrow> string" where
  "join_on c [] = []"
| "join_on c [x] = x"
| "join_on c (x # y # ys) = x @ [c] @ join_on c (y # ys)"

text \<open>The component loop of \<^verbatim>\<open>normpath\<close>; \<open>new_comps\<close> is the list built so far.\<close>

fun norm_comps :: "nat \<Rightarrow> string list \<Rightarrow> string list \<Rightarrow> string list" where
  "norm_comps initial_slashes [] new_comps = new_comps"
| "norm_comps initial_slashes (c # comps) new_comps =
     (if c = [] \<or> c = ''.'' then norm_comps initial_slashes comps new_comps
      else if c \<noteq> ''..'' \<or> (initial_slashes = 0 \<and> new_comps = []) \<or>
              (new_comps \<noteq> [] \<and> last new_comps = ''..'')
        then norm_comps initial_slashes comps (new_comps @ [c])
      else if new_comps \<noteq> [] then norm_comps initial_slashes comps (butlast new_comps)
      else norm_comps initial_slashes comps new_comps)"

definition normpath :: "path \<Rightarrow> path" where
  "normpath p =
     (if p = [] then ''.''
      else
        let initial_slashes =
              (if startswith p [sep]
               then (if startswith p [sep, sep] \<and> \<not> startswith p [sep, sep, sep]
                     then 2 else 1)
               else (0 :: nat));
            comps = norm_comps initial_slashes (split_on sep p) [];
            path = replicate initial_slashes sep @ join_on sep comps
        in if path = [] then ''.'' else path)"

text \<open>\<^verbatim>\<open>abspath\<close> reads the working directory when the path is relative.\<close>

definition abspath :: "path \<Rightarrow> path \<Rightarrow> path" where
  "abspath cwd p = normpath (if isabs p then p else join_path cwd p)"

subsection \<open>Values exchanged with the remote model\<close>

text \<open>
  The request is built from dictionary literals and the response's predictions are
  whatever the service sent, so both are modelled as JSON-like values; a dictionary is
  an association list in the order of the literal.
\<close>

datatype json =
    JNull
  | JBool bool
  | JNum int
  | JStr string
  | JArr "json list"
  | JObj "(string \<times> json) list"

datatype response = Prediction (predictions: "json list")

fun type_name :: "json \<Rightarrow> string" where
  "type_name JNull = ''NoneType''"
| "type_name (JBool b) = ''bool''"
| "type_name (JNum n) = ''int''"
| "type_name (JStr s) = ''str''"
| "type_name (JArr xs) = ''list''"
| "type_name (JObj kvs) = ''dict''"

fun is_substring :: "string \<Rightarrow> string \<Rightarrow> bool" where
  "is_substring pat [] = (pat = [])"
| "is_substring pat (c # cs) = (startswith (c # cs) pat \<or> is_substring pat cs)"

text \<open>
  The three operations that the script applies to the first prediction, with Python's
  dynamic typing: \<^verbatim>\<open>key in p\<close>, \<^verbatim>\<open>p[key]\<close> and \<^verbatim>\<open>base64.b64decode(v)\<close>. The wording
  of the library's messages is CPython 3.11's.
\<close>

fun py_contains :: "json \<Rightarrow> string \<Rightarrow> exn + bool" where
  "py_contains (JObj kvs) key = Inr (key \<in> set (map fst kvs))"
| "py_contains (JStr s) key = Inr (is_substring key s)"
| "py_contains (JArr xs) key = Inr (JStr key \<in> set xs)"
| "py_contains v key =
     Inl (Exn TypeError (''argument of type '' @ [CHR 0x27] @ type_name v @ [CHR 0x27] @
                         '' is not iterable''))"

fun py_getitem :: "json \<Rightarrow> string \<Rightarrow> exn + json" where
  "py_getitem (JObj kvs) key =
     (case map_of kvs key of
        None \<Rightarrow> Inl (Exn KeyError ([CHR 0x27] @ key @ [CHR 0x27]))
      | Some v \<Rightarrow> Inr v)"
| "py_getitem (JStr s) key =
     Inl (Exn TypeError (''string indices must be integers, not '' @ [CHR 0x27] @ ''str'' @ [CHR 0x27]))"
| "py_getitem (JArr xs) key =
     Inl (Exn TypeError ''list indices must be integers or slices, not str'')"
| "py_getitem v key =
     Inl (Exn TypeError ([CHR 0x27] @ type_name v @ [CHR 0x27] @ '' object is not subscriptable''))"

fun py_b64decode :: "json \<Rightarrow> exn + bytes" where
  "py_b64decode (JStr s) = b64decode s"
| "py_b64decode v =
     Inl (Exn TypeError (''argument should be a bytes-like object or ASCII string, not '' @
                         [CHR 0x27] @ type_name v @ [CHR 0x27]))"

subsection \<open>The environment and the world\<close>

text \<open>
  \<open>env\<close> holds what the run is given: the configuration constant that the user must
  edit, the outcome of the client library's calls as functions of their arguments
  (\<open>None\<close>: the call returns; \<open>Some x\<close>: it raises \<open>x\<close>), the faults of the file system,
  the working directory, the image decoder, and how the library prints a response.
  \<open>world\<close> holds what the run changes: the files, the two streams and the log of the
  calls that leave the process, each in order.

  A file that is absent cannot be opened for reading (\<^verbatim>\<open>FileNotFoundError\<close>); a file
  that is present is read unless \<open>read_fault\<close> says otherwise. Opening a file for
  writing and writing it are one step, which either stores all the bytes or raises and
  stores nothing. The traceback of an uncaught exception is not part of \<open>stderr\<close>.
\<close>

datatype call =
    Init string string
  | GetModel string
  | OpenRead path
  | Predict "json list" json
  | Access path
  | OpenWrite path
  | GetSize path

record env =
  PROJECT_ID :: string
  prog :: string
  aiplatform_init :: "string \<Rightarrow> string \<Rightarrow> exn option"
  aiplatform_Model :: "string \<Rightarrow> exn option"
  predict :: "json list \<Rightarrow> json \<Rightarrow> exn + response"
  str_response :: "response \<Rightarrow> string"
  read_fault :: "path \<Rightarrow> exn option"
  access_W_OK :: "path \<Rightarrow> bool"
  write_fault :: "path \<Rightarrow> exn option"
  getcwd :: path
  image_size :: "bytes \<Rightarrow> exn + nat \<times> nat"

record world =
  files :: "path \<rightharpoonup> bytes"
  stdout :: "string list"
  stderr :: "string list"
  calls :: "call list"

datatype 'a result = Return 'a | SysExit nat | Raise exn

definition print_out :: "string \<Rightarrow> world \<Rightarrow> world" where
  "print_out l w = w\<lparr>stdout := stdout w @ [l]\<rparr>"

definition print_err :: "string \<Rightarrow> world \<Rightarrow> world" where
  "print_err l w = w\<lparr>stderr := stderr w @ [l]\<rparr>"

definition log_call :: "call \<Rightarrow> world \<Rightarrow> world" where
  "log_call c w = w\<lparr>calls := calls w @ [c]\<rparr>"

definition open_read :: "env \<Rightarrow> path \<Rightarrow> world \<Rightarrow> (exn + bytes) \<times> world" where
  "open_read e p w =
     (let w1 = log_call (OpenRead p) w in
      case files w p of
        None \<Rightarrow> (Inl (Exn FileNotFoundError ''[Errno 2] No such file or directory''), w1)
      | Some b \<Rightarrow>
          (case read_fault e p of
             Some x \<Rightarrow> (Inl x, w1)
           | None \<Rightarrow> (Inr b, w1)))"

definition open_write :: "env \<Rightarrow> path \<Rightarrow> bytes \<Rightarrow> world \<Rightarrow> exn option \<times> world" where
  "open_write e p data w =
     (let w1 = log_call (OpenWrite p) w in
      case write_fault e p of
        Some x \<Rightarrow> (Some x, w1)
      | None \<Rightarrow> (None, w1\<lparr>files := (files w1)(p \<mapsto> data)\<rparr>))"

subsection \<open>The script\<close>

definition PLACEHOLDER :: string where
  "PLACEHOLDER = ''your-gcp-project-id''"

definition LOCATION :: string where
  "LOCATION = ''us-central1''"

definition MODEL_NAME :: string where
  "MODEL_NAME = ''imagegeneration@006''"

definition KEY :: string where
  "KEY = ''bytesBase64Encoded''"

text \<open>Step 4 of \<^verbatim>\<open>upscale_image\<close>: the two dictionary literals.\<close>

definition instance_of :: "string \<Rightarrow> json" where
  "instance_of encoded_image = JObj [(''image'', JObj [(KEY, JStr encoded_image)])]"

definition parameters_of :: "string \<Rightarrow> json" where
  "parameters_of factor =
     JObj [(''mode'', JStr ''upscale''),
           (''upscaleConfig'', JObj [(''upscaleFactor'', JStr factor)])]"

text \<open>
  Step 6, the part of the \<^verbatim>\<open>try\<close> block after the call: \<open>Inl\<close> is an exception (which
  the \<^verbatim>\<open>except Exception\<close> clause catches), \<open>Inr None\<close> is the branch that reports a
  response without an image, \<open>Inr (Some b)\<close> the decoded bytes.
\<close>

definition first_image :: "response \<Rightarrow> exn + bytes option" where
  "first_image r =
     (case predictions r of
        [] \<Rightarrow> Inl (Exn IndexError ''list index out of range'')
      | p # rest \<Rightarrow>
          (case py_contains p KEY of
             Inl x \<Rightarrow> Inl x
           | Inr False \<Rightarrow> Inr None
           | Inr True \<Rightarrow>
               (case py_getitem p KEY of
                  Inl x \<Rightarrow> Inl x
                | Inr v \<Rightarrow>
                    (case py_b64decode v of
                       Inl x \<Rightarrow> Inl x
                     | Inr b \<Rightarrow> Inr (Some b)))))"

definition api_error :: "exn \<Rightarrow> world \<Rightarrow> world" where
  "api_error x w =
     print_err ''Please ensure Vertex AI API is enabled and your account has permissions.''
       (print_err (''Error during API call: '' @ str_exn x) w)"

text \<open>Steps 5 and 6: the announcement, the call and the decoding of its answer.\<close>

definition fetch :: "env \<Rightarrow> path \<Rightarrow> string \<Rightarrow> string \<Rightarrow> world \<Rightarrow> bytes result \<times> world" where
  "fetch e source_path encoded_image factor w =
     (let w1 = print_err (''Sending request to Vertex AI to upscale '' @ basename source_path @
                          '' '' @ factor @ ''...'') w;
          instances = [instance_of encoded_image];
          parameters = parameters_of factor;
          w2 = log_call (Predict instances parameters) w1
      in case predict e instances parameters of
           Inl x \<Rightarrow> (SysExit 1, api_error x w2)
         | Inr r \<Rightarrow>
             (case first_image r of
                Inl x \<Rightarrow> (SysExit 1, api_error x w2)
              | Inr None \<Rightarrow>
                  (SysExit 1,
                   print_err (''Error: API response did not contain an image. '' @
                              str_response e r) w2)
              | Inr (Some upscaled_bytes) \<Rightarrow> (Return upscaled_bytes, w2)))"

text \<open>Step 7: the name and the place of the output.\<close>

definition output_filename :: "path \<Rightarrow> string \<Rightarrow> string" where
  "output_filename source_path factor =
     (let (source_dir, source_filename) = split_path source_path;
          (filename_base, ext) = splitext source_filename
      in filename_base @ ''_upscaled_'' @ factor @ ext)"

definition target_dir :: "env \<Rightarrow> path \<Rightarrow> path" where
  "target_dir e source_path =
     (let source_dir = fst (split_path source_path)
      in if source_dir \<noteq> [] then source_dir else getcwd e)"

definition primary_path :: "env \<Rightarrow> path \<Rightarrow> string \<Rightarrow> path" where
  "primary_path e source_path factor =
     join_path (target_dir e source_path) (output_filename source_path factor)"

definition fallback_path :: "env \<Rightarrow> path \<Rightarrow> string \<Rightarrow> path" where
  "fallback_path e source_path factor =
     join_path (getcwd e) (output_filename source_path factor)"

text \<open>
  The fallback of step 7: the two lines on the error stream, then the second write,
  whose failure is fatal.
\<close>

definition warning_line :: "env \<Rightarrow> path \<Rightarrow> string" where
  "warning_line e source_path =
     ''Warning: Target directory '' @ [CHR 0x27] @ target_dir e source_path @ [CHR 0x27] @
     '' not writable.''"

definition fallback :: "env \<Rightarrow> path \<Rightarrow> string \<Rightarrow> bytes \<Rightarrow> world \<Rightarrow> path result \<times> world" where
  "fallback e source_path factor upscaled_bytes w =
     (let w1 = print_err (warning_line e source_path) w;
          output_path = fallback_path e source_path factor;
          w2 = print_err (''Saving to current working directory: '' @ output_path) w1
      in case open_write e output_path upscaled_bytes w2 of
           (Some x, w3) \<Rightarrow>
             (SysExit 1,
              print_err (''Error: Could not write to current working directory either: '' @
                         str_exn x) w3)
         | (None, w3) \<Rightarrow> (Return output_path, w3))"

text \<open>
  The first \<^verbatim>\<open>try\<close> of step 7. \<^verbatim>\<open>os.access\<close> is asked first; the handler catches
  \<^verbatim>\<open>PermissionError\<close> and \<^verbatim>\<open>OSError\<close>, anything else propagates.
\<close>

definition save :: "env \<Rightarrow> path \<Rightarrow> string \<Rightarrow> bytes \<Rightarrow> world \<Rightarrow> path result \<times> world" where
  "save e source_path factor upscaled_bytes w =
     (let output_path = primary_path e source_path factor;
          w1 = log_call (Access (target_dir e source_path)) w
      in if \<not> access_W_OK e (target_dir e source_path)
         then fallback e source_path factor upscaled_bytes w1
         else (case open_write e output_path upscaled_bytes w1 of
                 (Some x, w2) \<Rightarrow>
                   (if is_OSError (exn_cls x)
                    then fallback e source_path factor upscaled_bytes w2
                    else (Raise x, w2))
               | (None, w2) \<Rightarrow> (Return output_path, w2)))"

text \<open>
  Step 8: the size is read from the file system, the dimensions from the bytes in
  memory; neither call is guarded.
\<close>

definition report :: "env \<Rightarrow> path \<Rightarrow> path \<Rightarrow> bytes \<Rightarrow> world \<Rightarrow> unit result \<times> world" where
  "report e source_path output_path upscaled_bytes w =
     (let w1 = log_call (GetSize output_path) w in
      case files w1 output_path of
        None \<Rightarrow> (Raise (Exn FileNotFoundError ''[Errno 2] No such file or directory''), w1)
      | Some content \<Rightarrow>
          (let file_size = length content in
           case image_size e upscaled_bytes of
             Inl x \<Rightarrow> (Raise x, w1)
           | Inr (width, height) \<Rightarrow>
               (Return (),
                print_out (''New Dimensions:   '' @ str_nat width @ ''x'' @ str_nat height)
                 (print_out (''New Filesize:     '' @ str_nat file_size @ '' bytes'')
                   (print_out (''Upscaled Image:   '' @ abspath (getcwd e) output_path)
                     (print_out (''Source Image:     '' @ abspath (getcwd e) source_path) w1))))))"

definition model_resource :: "env \<Rightarrow> string" where
  "model_resource e =
     ''projects/'' @ PROJECT_ID e @ ''/locations/'' @ LOCATION @
     ''/publishers/google/models/'' @ MODEL_NAME"

definition upscale_image :: "env \<Rightarrow> path \<Rightarrow> string \<Rightarrow> world \<Rightarrow> unit result \<times> world" where
  "upscale_image e source_path factor w =
     (let w1 = log_call (Init (PROJECT_ID e) LOCATION) w in
      case aiplatform_init e (PROJECT_ID e) LOCATION of
        Some x \<Rightarrow>
          (SysExit 1,
           print_err (''Details: '' @ str_exn x)
             (print_err ''Error initializing Vertex AI. Did you set GOOGLE_APPLICATION_CREDENTIALS?'' w1))
      | None \<Rightarrow>
          (let w2 = log_call (GetModel (model_resource e)) w1 in
           case aiplatform_Model e (model_resource e) of
             Some x \<Rightarrow> (Raise x, w2)
           | None \<Rightarrow>
               (case open_read e source_path w2 of
                  (Inl x, w3) \<Rightarrow>
                    (if exn_cls x = FileNotFoundError
                     then (SysExit 1,
                           print_err (''Error: Source file not found at '' @ source_path) w3)
                     else (SysExit 1,
                           print_err (''Error reading source file: '' @ str_exn x) w3))
                | (Inr image_bytes, w3) \<Rightarrow>
                    (case fetch e source_path (b64encode image_bytes) factor w3 of
                       (SysExit n, w4) \<Rightarrow> (SysExit n, w4)
                     | (Raise x, w4) \<Rightarrow> (Raise x, w4)
                     | (Return upscaled_bytes, w4) \<Rightarrow>
                         (case save e source_path factor upscaled_bytes w4 of
                            (SysExit n, w5) \<Rightarrow> (SysExit n, w5)
                          | (Raise x, w5) \<Rightarrow> (Raise x, w5)
                          | (Return output_path, w5) \<Rightarrow>
                              report e source_path output_path upscaled_bytes w5)))))"

text \<open>
  \<^verbatim>\<open>parse_args\<close>, on the two strings that \<^verbatim>\<open>argparse\<close> binds to the positionals
  \<^verbatim>\<open>source_image\<close> and \<^verbatim>\<open>upscale_factor\<close>: the second must be one of the choices, or
  the parser prints its usage and an error line and exits with status 2. Command lines
  that do not bind both positionals (too few or too many arguments, option strings such
  as \<^verbatim>\<open>-h\<close>) are outside the model; the quoting of the rejected value is not modelled
  beyond the quotes.
\<close>

definition choices :: "string list" where
  "choices = [''x2'', ''x4'']"

definition parse_args :: "env \<Rightarrow> string \<Rightarrow> string \<Rightarrow> string list + string \<times> string" where
  "parse_args e source_image upscale_factor =
     (if upscale_factor \<in> set choices then Inr (source_image, upscale_factor)
      else Inl [''usage: '' @ prog e @ '' [-h] source_image {x2,x4}'',
                prog e @ '': error: argument upscale_factor: invalid choice: '' @
                [CHR 0x27] @ upscale_factor @ [CHR 0x27] @
                '' (choose from '' @ [CHR 0x27] @ ''x2'' @ [CHR 0x27] @ '', '' @
                [CHR 0x27] @ ''x4'' @ [CHR 0x27] @ '')''])"

text \<open>
  How the process ends: with an exit status, or by an exception that nothing caught
  (the interpreter then exits with status 1).
\<close>

datatype ending = Exited nat | Uncaught exn

fun exit_status :: "ending \<Rightarrow> nat" where
  "exit_status (Exited n) = n"
| "exit_status (Uncaught x) = 1"

definition start :: "(path \<rightharpoonup> bytes) \<Rightarrow> world" where
  "start fs = \<lparr>files = fs, stdout = [], stderr = [], calls = []\<rparr>"

text \<open>The \<^verbatim>\<open>__main__\<close> block, from a file system and the two positional arguments.\<close>

definition main :: "env \<Rightarrow> string \<Rightarrow> string \<Rightarrow> (path \<rightharpoonup> bytes) \<Rightarrow> ending \<times> world" where
  "main e source_image upscale_factor fs =
     (if PROJECT_ID e = PLACEHOLDER
      then (Exited 1,
            print_err ''Error: Please edit the PROJECT_ID and LOCATION constants at the top of the script.''
              (start fs))
      else (case parse_args e source_image upscale_factor of
              Inl usage \<Rightarrow> (Exited 2, (start fs)\<lparr>stderr := usage\<rparr>)
            | Inr (source_path, factor) \<Rightarrow>
                (case upscale_image e source_path factor (start fs) of
                   (Return u, w) \<Rightarrow> (Exited 0, w)
                 | (SysExit n, w) \<Rightarrow> (Exited n, w)
                 | (Raise x, w) \<Rightarrow> (Uncaught x, w))))"

subsection \<open>Observations on a run\<close>

text \<open>
  The vocabulary of the properties below. \<open>reaches_read\<close>: the configuration is set, the
  factor is one of the choices, and the client and the model handle are obtained, so
  that the run arrives at the read of the source file; \<open>w_read\<close> is the world at that
  point. \<open>unwritable\<close>: the condition under which the first \<^verbatim>\<open>try\<close> of step 7 ends in
  its handler. \<open>written\<close>: the paths of the writes in a log that succeeded.
\<close>

definition reaches_read :: "env \<Rightarrow> string \<Rightarrow> bool" where
  "reaches_read e f \<longleftrightarrow>
     PROJECT_ID e \<noteq> PLACEHOLDER \<and> f \<in> set choices \<and>
     aiplatform_init e (PROJECT_ID e) LOCATION = None \<and>
     aiplatform_Model e (model_resource e) = None"

definition w_read :: "env \<Rightarrow> path \<Rightarrow> (path \<rightharpoonup> bytes) \<Rightarrow> world" where
  "w_read e si fs =
     \<lparr>files = fs, stdout = [], stderr = [],
      calls = [Init (PROJECT_ID e) LOCATION, GetModel (model_resource e), OpenRead si]\<rparr>"

definition unwritable :: "env \<Rightarrow> path \<Rightarrow> string \<Rightarrow> bool" where
  "unwritable e sp f \<longleftrightarrow>
     \<not> access_W_OK e (target_dir e sp) \<or>
     (case write_fault e (primary_path e sp f) of
        None \<Rightarrow> False
      | Some x \<Rightarrow> is_OSError (exn_cls x))"

fun is_Predict :: "call \<Rightarrow> bool" where
  "is_Predict (Predict i p) = True"
| "is_Predict _ = False"

fun is_OpenRead :: "call \<Rightarrow> bool" where
  "is_OpenRead (OpenRead p) = True"
| "is_OpenRead _ = False"

fun written :: "env \<Rightarrow> call list \<Rightarrow> path list" where
  "written e [] = []"
| "written e (OpenWrite p # cs) =
     (if write_fault e p = None then p # written e cs else written e cs)"
| "written e (c # cs) = written e cs"

subsection \<open>Example runs\<close>

text \<open>
  A configured environment in which every call succeeds and the service answers with
  one prediction holding the base64 text \<^verbatim>\<open>TWFu\<close>, and a file system with one image
  of three bytes. The other environments differ from it in one field each.
\<close>

definition ok_env :: env where
  "ok_env =
     \<lparr>PROJECT_ID = ''my-project'', prog = ''main.py'',
      aiplatform_init = (\<lambda>p l. None), aiplatform_Model = (\<lambda>n. None),
      predict = (\<lambda>i p. Inr (Prediction [JObj [(''bytesBase64Encoded'', JStr ''TWFu'')]])),
      str_response = (\<lambda>r. ''<response body>''),
      read_fault = (\<lambda>p. None), access_W_OK = (\<lambda>p. True), write_fault = (\<lambda>p. None),
      getcwd = ''/work'', image_size = (\<lambda>b. Inr (2, 4))\<rparr>"

definition fs0 :: "path \<rightharpoonup> bytes" where
  "fs0 = [''pics/a.png'' \<mapsto> [1, 2, 3]]"

definition shipped_env :: env where
  "shipped_env = ok_env\<lparr>PROJECT_ID := ''your-gcp-project-id''\<rparr>"

definition no_credentials_env :: env where
  "no_credentials_env =
     ok_env\<lparr>aiplatform_init := (\<lambda>p l. Some (Exn OtherException ''credentials not found''))\<rparr>"

definition empty_response_env :: env where
  "empty_response_env = ok_env\<lparr>predict := (\<lambda>i p. Inr (Prediction []))\<rparr>"

definition no_field_env :: env where
  "no_field_env = ok_env\<lparr>predict := (\<lambda>i p. Inr (Prediction [JObj [(''mimeType'', JStr ''image/png'')]]))\<rparr>"

definition readonly_dir_env :: env where
  "readonly_dir_env = ok_env\<lparr>access_W_OK := (\<lambda>p. p = ''/work'')\<rparr>"

definition not_an_image_env :: env where
  "not_an_image_env =
     readonly_dir_env\<lparr>image_size := (\<lambda>b. Inl (Exn OtherException ''cannot identify image file''))\<rparr>"

definition unreadable_env :: env where
  "unreadable_env =
     ok_env\<lparr>read_fault := (\<lambda>p. Some (Exn PermissionError ''[Errno 13] Permission denied''))\<rparr>"

section \<open>Properties\<close>

subsection \<open>Base64: decoding what the encoder wrote\<close>


















lemma index_of_None: "index_of xs c = None \<longleftrightarrow> c \<notin> set xs"
  by (induction xs) auto

lemma index_of_append: "c \<notin> set xs \<Longrightarrow> index_of (xs @ c # ys) c = Some (length xs)"
  by (induction xs) auto



















subsection \<open>The steps of the script\<close>


lemma fetch_Return:
  assumes "fetch e sp enc f w = (Return d, w')"
  shows "(\<exists>r. predict e [instance_of enc] (parameters_of f) = Inr r \<and>
              first_image r = Inr (Some d)) \<and>
         files w' = files w \<and> stdout w' = stdout w \<and>
         calls w' = calls w @ [Predict [instance_of enc] (parameters_of f)] \<and>
         stderr w' = stderr w @ [''Sending request to Vertex AI to upscale '' @ basename sp @
                                 '' '' @ f @ ''...'']"
  using assms
  by (auto simp: fetch_def Let_def log_call_def print_err_def api_error_def
           split: sum.splits option.splits)

lemma fetch_SysExit:
  assumes "fetch e sp enc f w = (SysExit n, w')"
  shows "n = 1 \<and> files w' = files w \<and> stdout w' = stdout w \<and>
         calls w' = calls w @ [Predict [instance_of enc] (parameters_of f)]"
  using assms
  by (auto simp: fetch_def Let_def log_call_def print_err_def api_error_def
           split: sum.splits option.splits)

lemma fetch_no_Raise: "fetch e sp enc f w \<noteq> (Raise x, w')"
  by (auto simp: fetch_def Let_def split: sum.splits option.splits)

lemma fallback_cases:
  "fallback e sp f d w =
    (case write_fault e (fallback_path e sp f) of
       None \<Rightarrow>
         (Return (fallback_path e sp f),
          w\<lparr>files := (files w)(fallback_path e sp f \<mapsto> d),
            stderr := stderr w @
              [warning_line e sp,
               ''Saving to current working directory: '' @ fallback_path e sp f],
            calls := calls w @ [OpenWrite (fallback_path e sp f)]\<rparr>)
     | Some x \<Rightarrow>
         (SysExit 1,
          w\<lparr>stderr := stderr w @
              [warning_line e sp,
               ''Saving to current working directory: '' @ fallback_path e sp f,
               ''Error: Could not write to current working directory either: '' @ str_exn x],
            calls := calls w @ [OpenWrite (fallback_path e sp f)]\<rparr>))"
  by (simp add: fallback_def open_write_def Let_def log_call_def print_err_def
           split: option.splits)

lemma save_primary:
  assumes "access_W_OK e (target_dir e sp)" "write_fault e (primary_path e sp f) = None"
  shows "save e sp f d w =
           (Return (primary_path e sp f),
            w\<lparr>files := (files w)(primary_path e sp f \<mapsto> d),
              calls := calls w @ [Access (target_dir e sp), OpenWrite (primary_path e sp f)]\<rparr>)"
  using assms by (simp add: save_def open_write_def Let_def log_call_def)


lemma save_Raise:
  assumes "save e sp f d w = (Raise x, w')"
  shows "access_W_OK e (target_dir e sp) \<and> write_fault e (primary_path e sp f) = Some x \<and>
         \<not> is_OSError (exn_cls x) \<and> files w' = files w \<and> stdout w' = stdout w"
  using assms
  by (auto simp: save_def fallback_cases open_write_def Let_def log_call_def
           split: option.splits if_splits)

lemma save_SysExit:
  assumes "save e sp f d w = (SysExit n, w')"
  shows "n = 1 \<and> files w' = files w \<and> stdout w' = stdout w \<and> unwritable e sp f \<and>
         write_fault e (fallback_path e sp f) \<noteq> None"
  using assms
  by (auto simp: save_def fallback_cases unwritable_def open_write_def Let_def log_call_def
           split: option.splits if_splits)

lemma save_Return:
  assumes "save e sp f d w = (Return p, w')"
  shows "files w' = (files w)(p \<mapsto> d) \<and> stdout w' = stdout w \<and> write_fault e p = None \<and>
         ((p = primary_path e sp f \<and> \<not> unwritable e sp f \<and> stderr w' = stderr w \<and>
           calls w' = calls w @ [Access (target_dir e sp), OpenWrite p]) \<or>
          (p = fallback_path e sp f \<and> unwritable e sp f \<and>
           stderr w' = stderr w @
             [warning_line e sp, ''Saving to current working directory: '' @ p] \<and>
           calls w' = calls w @
             (if access_W_OK e (target_dir e sp)
              then [Access (target_dir e sp), OpenWrite (primary_path e sp f), OpenWrite p]
              else [Access (target_dir e sp), OpenWrite p])))"
  using assms
  by (auto simp: save_def fallback_cases unwritable_def open_write_def Let_def log_call_def
           split: option.splits if_splits)

lemma report_Return:
  assumes "report e sp p d w = (Return u, w')"
  shows "\<exists>content width height.
           files w p = Some content \<and> image_size e d = Inr (width, height) \<and>
           files w' = files w \<and> stderr w' = stderr w \<and> calls w' = calls w @ [GetSize p] \<and>
           stdout w' = stdout w @
             [''Source Image:     '' @ abspath (getcwd e) sp,
              ''Upscaled Image:   '' @ abspath (getcwd e) p,
              ''New Filesize:     '' @ str_nat (length content) @ '' bytes'',
              ''New Dimensions:   '' @ str_nat width @ ''x'' @ str_nat height]"
  using assms
  by (auto simp: report_def Let_def log_call_def print_out_def split: option.splits sum.splits)

lemma report_no_SysExit: "report e sp p d w \<noteq> (SysExit n, w')"
  by (auto simp: report_def Let_def split: option.splits sum.splits)

text \<open>
  The whole run, once the read is reached and succeeds, is the three later steps in
  sequence; a run that does not get that far ends in failure and touches nothing.
\<close>

lemma main_reached:
  assumes "reaches_read e f" "fs si = Some B" "read_fault e si = None"
  shows "main e si f fs =
          (case fetch e si (b64encode B) f (w_read e si fs) of
             (SysExit n, w4) \<Rightarrow> (Exited n, w4)
           | (Raise x, w4) \<Rightarrow> (Uncaught x, w4)
           | (Return d, w4) \<Rightarrow>
               (case save e si f d w4 of
                  (SysExit n, w5) \<Rightarrow> (Exited n, w5)
                | (Raise x, w5) \<Rightarrow> (Uncaught x, w5)
                | (Return p, w5) \<Rightarrow>
                    (case report e si p d w5 of
                       (Return u, w) \<Rightarrow> (Exited 0, w)
                     | (SysExit n, w) \<Rightarrow> (Exited n, w)
                     | (Raise x, w) \<Rightarrow> (Uncaught x, w))))"
  using assms
  by (auto simp: main_def reaches_read_def parse_args_def upscale_image_def open_read_def Let_def
        log_call_def start_def w_read_def split: prod.splits result.splits)

lemma main_not_reached:
  assumes "\<not> (reaches_read e f \<and> fs si \<noteq> None \<and> read_fault e si = None)"
  shows "exit_status (fst (main e si f fs)) \<noteq> 0 \<and> files (snd (main e si f fs)) = fs \<and>
         stdout (snd (main e si f fs)) = [] \<and>
         filter is_Predict (calls (snd (main e si f fs))) = [] \<and>
         written e (calls (snd (main e si f fs))) = []"
  using assms
  by (auto simp: main_def reaches_read_def parse_args_def upscale_image_def open_read_def Let_def
        log_call_def print_err_def start_def split: prod.splits result.splits option.splits)

lemma main_Exited0:
  assumes "main e si f fs = (Exited 0, w)"
  shows "reaches_read e f \<and> read_fault e si = None \<and>
         (\<exists>B d p w4 w5. fs si = Some B \<and>
            fetch e si (b64encode B) f (w_read e si fs) = (Return d, w4) \<and>
            save e si f d w4 = (Return p, w5) \<and>
            report e si p d w5 = (Return (), w))"
proof -
  have r: "reaches_read e f \<and> fs si \<noteq> None \<and> read_fault e si = None"
    using main_not_reached[of e f fs si] assms
    by (cases "reaches_read e f \<and> fs si \<noteq> None \<and> read_fault e si = None") auto
  then obtain B where B: "fs si = Some B" by auto
  from r B assms show ?thesis
    by (auto simp: main_reached report_no_SysExit split: prod.splits result.splits
             dest: fetch_SysExit save_SysExit)
qed

subsection \<open>Paths\<close>

lemma rfind_absent: "c \<notin> set p \<Longrightarrow> rfind p c = -1"
  by (simp add: rfind_def index_of_None[THEN iffD2])

lemma rfind_last: "c \<notin> set b \<Longrightarrow> rfind (a @ c # b) c = int (length a)"
  by (simp add: rfind_def index_of_append)

lemma split_path_bare: "sep \<notin> set p \<Longrightarrow> split_path p = ([], p)"
  by (simp add: split_path_def rfind_absent Let_def)

lemma split_path_at:
  "sep \<notin> set b \<Longrightarrow>
   split_path (a @ sep # b) =
     (if a @ [sep] \<noteq> replicate (Suc (length a)) sep then rstrip (a @ [sep]) sep else a @ [sep], b)"
proof -
  have n: "nat (int (length a) + 1) = Suc (length a)" by simp
  assume "sep \<notin> set b"
  then show ?thesis
    unfolding split_path_def rfind_last[of sep b a, OF \<open>sep \<notin> set b\<close>] n Let_def by simp
qed

lemma split_tail_no_sep: "sep \<notin> set (snd (split_path p))"
proof (cases "sep \<in> set p")
  case False
  then show ?thesis by (simp add: split_path_bare)
next
  case True
  then obtain a b where "p = a @ sep # b" "sep \<notin> set b"
    using split_list_last[of sep p] by auto
  then show ?thesis by (simp add: split_path_at)
qed

lemma splitext_concat: "splitext n = (B, E) \<Longrightarrow> B @ E = n"
  by (auto simp: splitext_def Let_def split: if_splits)

lemma output_filename_eq:
  "split_path si = (d, n) \<Longrightarrow> splitext n = (B, E) \<Longrightarrow>
   output_filename si f = B @ ''_upscaled_'' @ f @ E"
  by (simp add: output_filename_def)

lemma output_filename_no_sep:
  assumes "sep \<notin> set f"
  shows "sep \<notin> set (output_filename si f)"
proof -
  obtain d n where s: "split_path si = (d, n)" by (cases "split_path si")
  obtain B E where x: "splitext n = (B, E)" by (cases "splitext n")
  have "sep \<notin> set n" using split_tail_no_sep[of si] s by simp
  with splitext_concat[OF x] have "sep \<notin> set B" "sep \<notin> set E" by auto
  with assms show ?thesis
    by (simp add: output_filename_eq[OF s x] sep_def)
qed

lemma all_same: "(\<forall>x\<in>set s. x = c) \<longleftrightarrow> s = replicate (length s) c"
  by (induction s) auto

lemma rstrip_last: "rstrip s c \<noteq> [] \<Longrightarrow> last (rstrip s c) \<noteq> c"
  using hd_dropWhile[of "\<lambda>x. x = c" "rev s"]
  by (simp add: rstrip_def last_rev)

lemma rstrip_Nil: "rstrip s c = [] \<longleftrightarrow> s = replicate (length s) c"
  by (auto simp: rstrip_def dropWhile_eq_Nil_conv all_same[symmetric])

lemma rstrip_keep: "s \<noteq> [] \<Longrightarrow> last s \<noteq> c \<Longrightarrow> rstrip (s @ [c]) c = s"
  by (cases s rule: rev_cases) (auto simp: rstrip_def)

lemma head_shape:
  "fst (split_path p) = d \<Longrightarrow> d = [] \<or> d = replicate (length d) sep \<or> last d \<noteq> sep"
  using rstrip_last[of "take (nat (rfind p sep + 1)) p" sep]
        rstrip_Nil[of "take (nat (rfind p sep + 1)) p" sep]
  by (auto simp: split_path_def Let_def split: if_splits)

lemma endswith_sep: "endswith d [c] \<longleftrightarrow> d \<noteq> [] \<and> last d = c"
  by (cases d rule: rev_cases) (auto simp: endswith_def)

lemma startswith_sep: "startswith n [c] \<longleftrightarrow> n \<noteq> [] \<and> hd n = c"
  by (cases n) (auto simp: startswith_def)

lemma split_join:
  assumes "d \<noteq> []" "d = replicate (length d) sep \<or> last d \<noteq> sep" "sep \<notin> set n"
  shows "split_path (join_path d n) = (d, n)"
proof -
  have ns: "\<not> startswith n [sep]"
    using assms(3) by (cases n) (auto simp: startswith_def)
  show ?thesis
  proof (cases "last d = sep")
    case True
    with assms have rep: "d = replicate (length d) sep" by auto
    from assms(1) obtain a where a: "d = a @ [sep]"
      using True by (cases d rule: rev_cases) auto
    have j: "join_path d n = a @ sep # n"
      using ns True assms(1) a by (simp add: join_path_def endswith_sep)
    have "a @ [sep] = replicate (Suc (length a)) sep"
      using rep a by simp
    then have H: "split_path (a @ sep # n) = (a @ [sep], n)"
      using assms(3) by (simp only: split_path_at[OF assms(3)] if_False not_not simp_thms if_True)
    have "split_path (join_path d n) = split_path (a @ sep # n)"
      by (simp only: j)
    also have "\<dots> = (a @ [sep], n)"
      by (rule H)
    also have "\<dots> = (d, n)"
      by (simp only: a)
    finally show ?thesis .
  next
    case False
    have j: "join_path d n = d @ sep # n"
      using ns False assms(1) by (simp add: join_path_def endswith_sep)
    have ne: "d @ [sep] \<noteq> replicate (Suc (length d)) sep"
    proof
      assume "d @ [sep] = replicate (Suc (length d)) sep"
      then have "\<forall>x\<in>set (d @ [sep]). x = sep"
        by (metis in_set_replicate)
      with assms(1) False show False by (cases d rule: rev_cases) auto
    qed
    have H: "split_path (d @ sep # n) = (d, n)"
      by (simp only: split_path_at[OF assms(3)] ne if_True not_False_eq_True
            rstrip_keep[OF assms(1) False])
    show ?thesis unfolding j by (rule H)
  qed
qed

lemma normpath_abs: "isabs q \<Longrightarrow> isabs (normpath q)"
  by (cases q) (auto simp: isabs_def startswith_def normpath_def Let_def)

lemma abspath_abs:
  assumes "isabs c"
  shows "isabs (abspath c p)"
proof -
  have "isabs (if isabs p then p else join_path c p)"
    using assms by (cases c) (auto simp: join_path_def isabs_def startswith_def)
  then show ?thesis
    unfolding abspath_def by (rule normpath_abs)
qed

subsection \<open>The calls of a run\<close>

lemma fetch_calls:
  "calls (snd (fetch e sp enc f w)) = calls w @ [Predict [instance_of enc] (parameters_of f)]"
  by (auto simp: fetch_def Let_def log_call_def print_err_def api_error_def
           split: sum.splits option.splits)

lemma save_predicts:
  "filter is_Predict (calls (snd (save e sp f d w))) = filter is_Predict (calls w)"
  by (auto simp: save_def fallback_cases open_write_def Let_def log_call_def
           split: option.splits)

lemma report_calls: "calls (snd (report e sp p d w)) = calls w @ [GetSize p]"
  by (auto simp: report_def Let_def log_call_def print_out_def split: option.splits sum.splits)

lemma main_reached_predicts:
  assumes "reaches_read e f" "fs si = Some B" "read_fault e si = None"
  shows "filter is_Predict (calls (snd (main e si f fs))) =
           [Predict [instance_of (b64encode B)] (parameters_of f)]"
proof -
  obtain r4 w4 where F: "fetch e si (b64encode B) f (w_read e si fs) = (r4, w4)"
    by (cases "fetch e si (b64encode B) f (w_read e si fs)")
  have c4: "calls w4 = calls (w_read e si fs) @ [Predict [instance_of (b64encode B)] (parameters_of f)]"
    using fetch_calls[of e si "b64encode B" f "w_read e si fs"] F by simp
  have p4: "filter is_Predict (calls w4) = [Predict [instance_of (b64encode B)] (parameters_of f)]"
    by (simp add: c4 w_read_def)
  show ?thesis
  proof (cases r4)
    case (Return d)
    obtain r5 w5 where S: "save e si f d w4 = (r5, w5)" by (cases "save e si f d w4")
    have p5: "filter is_Predict (calls w5) = filter is_Predict (calls w4)"
      using save_predicts[of e si f d w4] S by simp
    show ?thesis
    proof (cases r5)
      case (Return p)
      note Rp = this
      obtain r6 w6 where R: "report e si p d w5 = (r6, w6)" by (cases "report e si p d w5")
      have c6: "calls w6 = calls w5 @ [GetSize p]"
        using report_calls[of e si p d w5] R by simp
      show ?thesis
        by (cases r6) (simp_all add: main_reached[of e f fs si B, OF assms] F \<open>r4 = Return d\<close> S Rp R c6 p5 p4)
    qed (simp_all add: main_reached[of e f fs si B, OF assms] F Return S p5 p4)
  qed (simp_all add: main_reached[of e f fs si B, OF assms] F p4)
qed


subsection \<open>Evaluating the example runs\<close>

lemmas run_defs =
  main_def PLACEHOLDER_def parse_args_def choices_def upscale_image_def
  start_def log_call_def print_err_def print_out_def open_read_def open_write_def fetch_def
  api_error_def first_image_def KEY_def LOCATION_def MODEL_NAME_def model_resource_def save_def
  fallback_def warning_line_def report_def
  target_dir_def primary_path_def fallback_path_def output_filename_def split_path_def
  splitext_def rfind_def rstrip_def sep_def join_path_def startswith_def endswith_def
  basename_def b64decode_def is_ascii_def table_a2b_def table_b2a_def b64_alphabet_def
  instance_of_def parameters_of_def abspath_def normpath_def isabs_def str_nat.simps
  digit_char_def Let_def
  ok_env_def fs0_def shipped_env_def no_credentials_env_def empty_response_env_def
  no_field_env_def readonly_dir_env_def not_an_image_env_def unreadable_env_def

lemma run_ok:
  "main ok_env ''pics/a.png'' ''x2'' fs0 =
    (Exited 0,
     \<lparr>files = fs0(''pics/a_upscaled_x2.png'' \<mapsto> [77, 97, 110]),
      stdout = [''Source Image:     /work/pics/a.png'',
                ''Upscaled Image:   /work/pics/a_upscaled_x2.png'',
                ''New Filesize:     3 bytes'',
                ''New Dimensions:   2x4''],
      stderr = [''Sending request to Vertex AI to upscale a.png x2...''],
      calls = [Init ''my-project'' ''us-central1'',
               GetModel ''projects/my-project/locations/us-central1/publishers/google/models/imagegeneration@006'',
               OpenRead ''pics/a.png'',
               Predict [JObj [(''image'', JObj [(''bytesBase64Encoded'', JStr ''AQID'')])]]
                       (JObj [(''mode'', JStr ''upscale''),
                              (''upscaleConfig'', JObj [(''upscaleFactor'', JStr ''x2'')])]),
               Access ''pics'',
               OpenWrite ''pics/a_upscaled_x2.png'',
               GetSize ''pics/a_upscaled_x2.png'']\<rparr>)"
  by (simp add: run_defs)

lemma run_ok_status: "fst (main ok_env ''pics/a.png'' ''x2'' fs0) = Exited 0"
  by (simp add: run_ok)

text \<open>
  The sibling of the run with no predictions: a first prediction without the field is
  reported with the response.
\<close>

lemma run_no_field:
  "main no_field_env ''pics/a.png'' ''x2'' fs0 =
    (Exited 1,
     \<lparr>files = fs0,
      stdout = [],
      stderr = [''Sending request to Vertex AI to upscale a.png x2...'',
                ''Error: API response did not contain an image. <response body>''],
      calls = [Init ''my-project'' ''us-central1'',
               GetModel ''projects/my-project/locations/us-central1/publishers/google/models/imagegeneration@006'',
               OpenRead ''pics/a.png'',
               Predict [JObj [(''image'', JObj [(''bytesBase64Encoded'', JStr ''AQID'')])]]
                       (JObj [(''mode'', JStr ''upscale''),
                              (''upscaleConfig'', JObj [(''upscaleFactor'', JStr ''x2'')])])]\<rparr>)"
  by (simp add: run_defs)

lemma first_image_first_only: "first_image (Prediction (p # ps)) = first_image (Prediction [p])"
  by (simp add: first_image_def)

subsection \<open>Responses without an image\<close>

text \<open>
  When the answer of the service yields no image, whether by an exception inside the
  \<^verbatim>\<open>try\<close> or by the missing field, the run ends with status 1 and writes nothing.
  What is printed differs: the branch for the missing field prints the response, the
  handler of the exception prints the exception's text, and an empty list of
  predictions takes the second way.
\<close>

lemma no_image_is_fatal:
  assumes "reaches_read e f" "fs si = Some B" "read_fault e si = None"
    and "predict e [instance_of (b64encode B)] (parameters_of f) = Inr r"
    and "first_image r = Inl x \<or> first_image r = Inr None"
  shows "fst (main e si f fs) = Exited 1 \<and> files (snd (main e si f fs)) = fs \<and>
         written e (calls (snd (main e si f fs))) = []"
  using assms(4,5)
  unfolding main_reached[of e f fs si B, OF assms(1,2,3)]
  by (auto simp: fetch_def Let_def log_call_def print_err_def api_error_def w_read_def)

lemma missing_field_prints_response:
  assumes "reaches_read e f" "fs si = Some B" "read_fault e si = None"
    and "predict e [instance_of (b64encode B)] (parameters_of f) = Inr r"
    and "first_image r = Inr None"
  shows "stderr (snd (main e si f fs)) =
           [''Sending request to Vertex AI to upscale '' @ basename si @ '' '' @ f @ ''...'',
            ''Error: API response did not contain an image. '' @ str_response e r]"
  using assms(4,5)
  unfolding main_reached[of e f fs si B, OF assms(1,2,3)]
  by (auto simp: fetch_def Let_def log_call_def print_err_def api_error_def w_read_def)

lemma empty_predictions_hide_response:
  assumes "reaches_read e f" "fs si = Some B" "read_fault e si = None"
    and "predict e [instance_of (b64encode B)] (parameters_of f) = Inr r"
    and "predictions r = []"
  shows "stderr (snd (main e si f fs)) =
           [''Sending request to Vertex AI to upscale '' @ basename si @ '' '' @ f @ ''...'',
            ''Error during API call: list index out of range'',
            ''Please ensure Vertex AI API is enabled and your account has permissions.'']"
  using assms(4,5)
  unfolding main_reached[of e f fs si B, OF assms(1,2,3)]
  by (auto simp: fetch_def first_image_def Let_def log_call_def print_err_def api_error_def w_read_def)

lemma dict_without_field: "KEY \<notin> set (map fst kvs) \<Longrightarrow> first_image (Prediction (JObj kvs # rest)) = Inr None"
  by (simp add: first_image_def)

section \<open>The specification's statements\<close>



text \<open>
  C2. For a source file with bytes \<open>B\<close> and a factor \<^verbatim>\<open>x2\<close> or \<^verbatim>\<open>x4\<close>, the request
  sent to the remote model is one instance holding \<open>base64(B)\<close> under
  \<^verbatim>\<open>image.bytesBase64Encoded\<close> and the parameters \<^verbatim>\<open>mode = upscale\<close>,
  \<^verbatim>\<open>upscaleConfig.upscaleFactor = f\<close>; it is sent in a single call. The run's log holds
  exactly that one call when the run gets as far as the call, and none otherwise.
\<close>

theorem request_is_built_once:
  assumes "fs si = Some B" "f \<in> {''x2'', ''x4''}"
  shows "filter is_Predict (calls (snd (main e si f fs))) =
           (if PROJECT_ID e \<noteq> PLACEHOLDER \<and>
               aiplatform_init e (PROJECT_ID e) LOCATION = None \<and>
               aiplatform_Model e (model_resource e) = None \<and>
               read_fault e si = None
            then [Predict
                    [JObj [(''image'', JObj [(''bytesBase64Encoded'', JStr (b64encode B))])]]
                    (JObj [(''mode'', JStr ''upscale''),
                           (''upscaleConfig'', JObj [(''upscaleFactor'', JStr f)])])]
            else [])"
proof (cases "reaches_read e f \<and> read_fault e si = None")
  case True
  then show ?thesis
    using main_reached_predicts[of e f fs si B] assms
    by (simp add: reaches_read_def instance_of_def parameters_of_def KEY_def)
next
  case False
  then show ?thesis
    using main_not_reached[of e f fs si] assms
    by (auto simp: reaches_read_def choices_def)
qed

theorem request_is_built_once_witness:
  "fs0 ''pics/a.png'' = Some [1, 2, 3] \<and>
   filter is_Predict (calls (snd (main ok_env ''pics/a.png'' ''x4'' fs0))) =
     [Predict
        [JObj [(''image'', JObj [(''bytesBase64Encoded'', JStr ''AQID'')])]]
        (JObj [(''mode'', JStr ''upscale''),
               (''upscaleConfig'', JObj [(''upscaleFactor'', JStr ''x4'')])])]"
  using request_is_built_once[of fs0 "''pics/a.png''" "[1, 2, 3]" "''x4''" ok_env]
  by (simp add: fs0_def ok_env_def PLACEHOLDER_def table_b2a_def b64_alphabet_def)

text \<open>
  C3. A response with no predictions, or whose first prediction lacks the field, ends
  the run with a non-zero status and no file written, the absence being reported with
  the response printed. On a response with no predictions the script fails at
  \<^verbatim>\<open>response.predictions[0]\<close>, inside the \<^verbatim>\<open>try\<close>: the run ends with status 1 and
  writes nothing, but what it prints is the text of the \<^verbatim>\<open>IndexError\<close> and the hint
  about permissions, not the response.
\<close>

theorem empty_predictions_reported_as_api_error:
  "main empty_response_env ''pics/a.png'' ''x2'' fs0 =
    (Exited 1,
     \<lparr>files = fs0,
      stdout = [],
      stderr = [''Sending request to Vertex AI to upscale a.png x2...'',
                ''Error during API call: list index out of range'',
                ''Please ensure Vertex AI API is enabled and your account has permissions.''],
      calls = [Init ''my-project'' ''us-central1'',
               GetModel ''projects/my-project/locations/us-central1/publishers/google/models/imagegeneration@006'',
               OpenRead ''pics/a.png'',
               Predict [JObj [(''image'', JObj [(''bytesBase64Encoded'', JStr ''AQID'')])]]
                       (JObj [(''mode'', JStr ''upscale''),
                              (''upscaleConfig'', JObj [(''upscaleFactor'', JStr ''x2'')])])]\<rparr>)"
  by (simp add: run_defs)







text \<open>
  C6. For a source path whose last component splits into the base \<open>B\<close> and the
  extension \<open>E\<close>, the output file is named \<open>B\<close> followed by \<^verbatim>\<open>_upscaled_\<close>, the factor
  and \<open>E\<close>, and without the fallback it is placed in the directory of the source file:
  the primary path joins that directory (the working directory when the source path
  names none) and the name, it splits back into that directory and the name, and when
  the directory is writable and the write succeeds that is where the bytes go.
\<close>

theorem output_name_and_place:
  assumes "split_path si = (dir, name)" "splitext name = (B, E)"
  shows "output_filename si f = B @ ''_upscaled_'' @ f @ E \<and> B @ E = name \<and>
         primary_path e si f =
           join_path (if dir = [] then getcwd e else dir) (B @ ''_upscaled_'' @ f @ E) \<and>
         (dir \<noteq> [] \<and> sep \<notin> set f \<longrightarrow>
            split_path (primary_path e si f) = (dir, B @ ''_upscaled_'' @ f @ E)) \<and>
         (access_W_OK e (target_dir e si) \<and> write_fault e (primary_path e si f) = None \<longrightarrow>
            fst (save e si f d w) = Return (primary_path e si f) \<and>
            files (snd (save e si f d w)) = (files w)(primary_path e si f \<mapsto> d))"
proof -
  have n: "output_filename si f = B @ ''_upscaled_'' @ f @ E"
    by (rule output_filename_eq[OF assms])
  have p: "primary_path e si f =
           join_path (if dir = [] then getcwd e else dir) (B @ ''_upscaled_'' @ f @ E)"
    using assms(1) by (simp add: primary_path_def target_dir_def n)
  have s: "split_path (primary_path e si f) = (dir, B @ ''_upscaled_'' @ f @ E)"
    if "dir \<noteq> []" "sep \<notin> set f"
  proof -
    have "dir = replicate (length dir) sep \<or> last dir \<noteq> sep"
      using head_shape[of si dir] assms(1) that(1) by simp
    moreover have "sep \<notin> set (B @ ''_upscaled_'' @ f @ E)"
      using output_filename_no_sep[OF that(2), of si] n by simp
    ultimately show ?thesis
      using that(1) by (simp add: p split_join)
  qed
  show ?thesis
    using n p s splitext_concat[OF assms(2)] by (auto simp: save_primary)
qed

theorem output_name_and_place_witness:
  "split_path ''pics/a.png'' = (''pics'', ''a.png'') \<and> splitext ''a.png'' = (''a'', ''.png'') \<and>
   output_filename ''pics/a.png'' ''x2'' = ''a_upscaled_x2.png'' \<and>
   split_path (primary_path ok_env ''pics/a.png'' ''x2'') = (''pics'', ''a_upscaled_x2.png'') \<and>
   fst (save ok_env ''pics/a.png'' ''x2'' [7] (start fs0)) = Return ''pics/a_upscaled_x2.png''"
  using output_name_and_place[of "''pics/a.png''" "''pics''" "''a.png''" "''a''" "''.png''"
          "''x2''" ok_env "[7]" "start fs0"]
  by (simp add: run_defs)

text \<open>
  C7. A successful run prints exactly four lines on standard output: the absolute
  source path, the absolute output path, the size in bytes and the dimensions as
  \<^verbatim>\<open>{width}x{height}\<close>. The size is the length of the file that was written, and the
  dimensions are those of the decoded bytes held in memory: the only file that the run
  opens for reading is the source.
\<close>

theorem report_lines:
  assumes "main e si f fs = (Exited 0, w)"
  shows "\<exists>B r d p width height.
           stdout w =
             [''Source Image:     '' @ abspath (getcwd e) si,
              ''Upscaled Image:   '' @ abspath (getcwd e) p,
              ''New Filesize:     '' @ str_nat (length d) @ '' bytes'',
              ''New Dimensions:   '' @ str_nat width @ ''x'' @ str_nat height] \<and>
           files w p = Some d \<and> written e (calls w) = [p] \<and>
           image_size e d = Inr (width, height) \<and>
           fs si = Some B \<and>
           predict e [instance_of (b64encode B)] (parameters_of f) = Inr r \<and>
           first_image r = Inr (Some d) \<and>
           filter is_OpenRead (calls w) = [OpenRead si] \<and>
           (isabs (getcwd e) \<longrightarrow>
              isabs (abspath (getcwd e) si) \<and> isabs (abspath (getcwd e) p))"
proof -
  from main_Exited0[OF assms] obtain B d p w4 w5 where
    rr: "reaches_read e f" and B: "fs si = Some B" and
    F: "fetch e si (b64encode B) f (w_read e si fs) = (Return d, w4)" and
    S: "save e si f d w4 = (Return p, w5)" and
    R: "report e si p d w5 = (Return (), w)"
    by blast
  from fetch_Return[OF F] obtain r where
    r: "predict e [instance_of (b64encode B)] (parameters_of f) = Inr r"
       "first_image r = Inr (Some d)" and
    o4: "stdout w4 = []" and
    c4: "calls w4 =
           calls (w_read e si fs) @ [Predict [instance_of (b64encode B)] (parameters_of f)]"
    by (auto simp: w_read_def)
  from save_Return[OF S] have
    f5: "files w5 p = Some d" and o5: "stdout w5 = stdout w4" and
    c5: "written e (calls w5) = [p]" and
    r5: "filter is_OpenRead (calls w5) = [OpenRead si]"
    by (auto simp: c4 w_read_def unwritable_def split: option.splits)
  from report_Return[OF R] obtain content width height where
    q: "files w5 p = Some content" "image_size e d = Inr (width, height)"
       "files w = files w5" "calls w = calls w5 @ [GetSize p]"
       "stdout w = stdout w5 @
             [''Source Image:     '' @ abspath (getcwd e) si,
              ''Upscaled Image:   '' @ abspath (getcwd e) p,
              ''New Filesize:     '' @ str_nat (length content) @ '' bytes'',
              ''New Dimensions:   '' @ str_nat width @ ''x'' @ str_nat height]"
    by blast
  have wr: "written e (cs @ [GetSize p]) = written e cs" for cs
    by (induction e cs rule: written.induct) auto
  from q(1) f5 have cd: "content = d" by simp
  show ?thesis
    by (rule exI[of _ B], rule exI[of _ r], rule exI[of _ d], rule exI[of _ p],
        rule exI[of _ width], rule exI[of _ height])
       (use B r q o4 o5 c5 r5 f5 wr abspath_abs cd in simp)
qed

theorem report_lines_witness:
  "fst (main ok_env ''pics/a.png'' ''x2'' fs0) = Exited 0 \<and> isabs (getcwd ok_env) \<and>
   (\<exists>B r d p width height.
           stdout (snd (main ok_env ''pics/a.png'' ''x2'' fs0)) =
             [''Source Image:     '' @ abspath (getcwd ok_env) ''pics/a.png'',
              ''Upscaled Image:   '' @ abspath (getcwd ok_env) p,
              ''New Filesize:     '' @ str_nat (length d) @ '' bytes'',
              ''New Dimensions:   '' @ str_nat width @ ''x'' @ str_nat height] \<and>
           files (snd (main ok_env ''pics/a.png'' ''x2'' fs0)) p = Some d \<and>
           image_size ok_env d = Inr (width, height) \<and>
           isabs (abspath (getcwd ok_env) p))"
proof -
  have h: "main ok_env ''pics/a.png'' ''x2'' fs0 =
           (Exited 0, snd (main ok_env ''pics/a.png'' ''x2'' fs0))"
    using run_ok_status by (simp add: prod_eq_iff)
  have a: "isabs (getcwd ok_env)"
    by (simp add: ok_env_def isabs_def startswith_def sep_def)
  show ?thesis
    using report_lines[OF h] run_ok_status a by blast
qed




text \<open>
  C9. For a source path with no directory component the primary target directory is
  the working directory, so the primary path and the fallback path are the same.
\<close>

theorem bare_filename_targets_cwd:
  assumes "sep \<notin> set si"
  shows "target_dir e si = getcwd e \<and> primary_path e si f = fallback_path e si f"
  using assms by (simp add: target_dir_def primary_path_def fallback_path_def split_path_bare)

theorem bare_filename_targets_cwd_witness:
  "sep \<notin> set ''a.png'' \<and> target_dir ok_env ''a.png'' = ''/work'' \<and>
   primary_path ok_env ''a.png'' ''x2'' = fallback_path ok_env ''a.png'' ''x2''"
  using bare_filename_targets_cwd[of "''a.png''" ok_env "''x2''"]
  by (simp add: sep_def ok_env_def)

text \<open>
  C10. The check of the configuration placeholder runs before the arguments are
  parsed: with \<^verbatim>\<open>PROJECT_ID\<close> left at its placeholder the run ends with status 1 and
  the configuration line, whatever the arguments, with no call made and no file
  touched.
\<close>

theorem placeholder_check_first:
  assumes "PROJECT_ID e = PLACEHOLDER"
  shows "main e si f fs =
           (Exited 1,
            \<lparr>files = fs, stdout = [],
             stderr = [''Error: Please edit the PROJECT_ID and LOCATION constants at the top of the script.''],
             calls = []\<rparr>)"
  using assms by (simp add: main_def start_def print_err_def)

theorem placeholder_check_first_witness:
  "PROJECT_ID shipped_env = PLACEHOLDER \<and>
   main shipped_env ''pics/a.png'' ''x3'' fs0 =
     (Exited 1,
      \<lparr>files = fs0, stdout = [],
       stderr = [''Error: Please edit the PROJECT_ID and LOCATION constants at the top of the script.''],
       calls = []\<rparr>)"
  using placeholder_check_first[of shipped_env "''pics/a.png''" "''x3''" fs0]
  by (simp add: shipped_env_def ok_env_def PLACEHOLDER_def)

end
